theory Spec2Isabelle
  imports Complex_Main
begin

section \<open>Electroplating controller: formulas.py, scpi.py, gui.py\<close>

text \<open>
  The three Python modules are embedded as HOL functions.

  Numbers. A Python \<^verbatim>\<open>float\<close> is modelled by a \<^typ>\<open>real\<close>: arithmetic is exact, there
  is no rounding, no overflow and no non-finite value inside the calculator and the
  controller. Where the source divides, the divisor zero raises \<^verbatim>\<open>ZeroDivisionError\<close>
  and this is a branch of the model. A Python \<^verbatim>\<open>int\<close> is an \<^typ>\<open>int\<close>. At the SCPI
  boundary, where parsed values are only passed on, \<^verbatim>\<open>inf\<close> and \<^verbatim>\<open>nan\<close> are kept as
  values of their own.

  Strings are ASCII character lists.
\<close>

subsection \<open>Python exceptions and builtins\<close>

datatype py_error = ValueError | ZeroDivisionError | TypeError | KeyError

text \<open>\<^verbatim>\<open>a / b\<close> on floats.\<close>

definition float_div :: "real \<Rightarrow> real \<Rightarrow> py_error + real" where
  "float_div a b = (if b = 0 then Inl ZeroDivisionError else Inr (a / b))"

text \<open>\<^verbatim>\<open>int(x)\<close> on a float: truncation toward zero.\<close>

definition int_of_float :: "real \<Rightarrow> int" where
  "int_of_float x = (if 0 \<le> x then \<lfloor>x\<rfloor> else \<lceil>x\<rceil>)"

text \<open>\<^verbatim>\<open>d[k]\<close> and \<^verbatim>\<open>d.get(k, default)\<close> on a dict.\<close>

definition dict_item :: "('k \<rightharpoonup> 'v) \<Rightarrow> 'k \<Rightarrow> py_error + 'v" where
  "dict_item d k = (case d k of None \<Rightarrow> Inl KeyError | Some v \<Rightarrow> Inr v)"

definition dict_get :: "('k \<rightharpoonup> 'v) \<Rightarrow> 'k \<Rightarrow> 'v \<Rightarrow> 'v" where
  "dict_get d k dflt = (case d k of None \<Rightarrow> dflt | Some v \<Rightarrow> v)"

text \<open>Decimal digits of a natural number, and the format \<^verbatim>\<open>{n:02d}\<close> for \<open>n \<ge> 0\<close>.\<close>

definition digit_char :: "nat \<Rightarrow> char" where
  "digit_char d = ''0123456789'' ! (d mod 10)"

fun str_nat :: "nat \<Rightarrow> string" where
  "str_nat n = (if n < 10 then [digit_char n] else str_nat (n div 10) @ [digit_char (n mod 10)])"

declare str_nat.simps [simp del]

definition fmt_02d :: "nat \<Rightarrow> string" where
  "fmt_02d n = (let s = str_nat n in replicate (2 - length s) (CHR ''0'') @ s)"

text \<open>\<^verbatim>\<open>str(n)\<close> of an int, as an f-string field \<^verbatim>\<open>{n}\<close> prints it.\<close>

definition str_int :: "int \<Rightarrow> string" where
  "str_int n = (if n < 0 then CHR ''-'' # str_nat (nat (- n)) else str_nat (nat n))"

text \<open>
  \<^verbatim>\<open>str(x)\<close> of a float, as an f-string field \<^verbatim>\<open>{x}\<close> prints it. Python prints the
  shortest decimal that reads back as the same double; the model prints the decimal
  expansion of the real, cut after 17 fractional digits, and never uses the exponent
  form.
\<close>

fun frac_digits :: "nat \<Rightarrow> real \<Rightarrow> string" where
  "frac_digits 0 r = []"
| "frac_digits (Suc k) r =
     (let d = nat \<lfloor>r * 10\<rfloor>; r' = r * 10 - of_nat d
      in digit_char d # (if r' = 0 then [] else frac_digits k r'))"

definition float_repr :: "real \<Rightarrow> string" where
  "float_repr x =
     (let a = \<bar>x\<bar>; n = nat \<lfloor>a\<rfloor>
      in (if x < 0 then ''-'' else []) @ str_nat n @ ''.'' @ frac_digits 17 (a - of_nat n))"

subsection \<open>String helpers: \<^verbatim>\<open>str.strip\<close>, \<^verbatim>\<open>str.upper\<close>, \<^verbatim>\<open>str.split\<close>, \<^verbatim>\<open>str.startswith\<close>\<close>

definition is_space :: "char \<Rightarrow> bool" where
  "is_space c = (let n = (of_char c :: nat) in (9 \<le> n \<and> n \<le> 13) \<or> (28 \<le> n \<and> n \<le> 32))"

definition is_digit :: "char \<Rightarrow> bool" where
  "is_digit c = (let n = (of_char c :: nat) in 48 \<le> n \<and> n \<le> 57)"

definition digit_val :: "char \<Rightarrow> nat" where
  "digit_val c = of_char c - 48"

definition upper_char :: "char \<Rightarrow> char" where
  "upper_char c = (let n = (of_char c :: nat) in if 97 \<le> n \<and> n \<le> 122 then char_of (n - 32) else c)"

definition upper :: "string \<Rightarrow> string" where
  "upper s = map upper_char s"

definition strip :: "string \<Rightarrow> string" where
  "strip s = rev (dropWhile is_space (rev (dropWhile is_space s)))"

fun split_ws :: "string \<Rightarrow> string \<Rightarrow> string list" where
  "split_ws cur [] = (if cur = [] then [] else [cur])"
| "split_ws cur (c # cs) =
     (if is_space c then (if cur = [] then split_ws [] cs else cur # split_ws [] cs)
      else split_ws (cur @ [c]) cs)"

definition split :: "string \<Rightarrow> string list" where
  "split s = split_ws [] s"

definition startswith :: "string \<Rightarrow> string \<Rightarrow> bool" where
  "startswith s p = (take (length p) s = p)"

text \<open>\<^verbatim>\<open>sub in s\<close> on strings.\<close>

fun contains :: "string \<Rightarrow> string \<Rightarrow> bool" where
  "contains [] sub = (sub = [])"
| "contains (c # cs) sub = (startswith (c # cs) sub \<or> contains cs sub)"

subsection \<open>formulas.py\<close>

text \<open>
  \<^verbatim>\<open>format_time(seconds)\<close>. The argument is any Python object; the four kinds the
  conversion \<^verbatim>\<open>int(seconds)\<close> distinguishes are kept. \<^verbatim>\<open>int\<close> of a string reads an
  optionally signed run of digits (surrounded by whitespace) and raises \<^verbatim>\<open>ValueError\<close>
  otherwise; \<^verbatim>\<open>int(None)\<close> raises \<^verbatim>\<open>TypeError\<close>.
\<close>

datatype py_arg = IntArg int | FloatArg real | StrArg string | NoneArg

definition int_of_digits :: "string \<Rightarrow> nat" where
  "int_of_digits ds = foldl (\<lambda>n c. 10 * n + digit_val c) 0 ds"

text \<open>A \<^verbatim>\<open>digitpart\<close> of Python's grammar: digits, single underscores allowed between two
  digits. The function reads what follows a first digit.\<close>

fun digitrest :: "string \<Rightarrow> string \<times> string" where
  "digitrest [] = ([], [])"
| "digitrest (c # cs) =
     (if is_digit c then (let (ds, r) = digitrest cs in (c # ds, r))
      else if c = CHR ''_'' then
        (case cs of
           [] \<Rightarrow> ([], c # cs)
         | d # cs' \<Rightarrow>
             if is_digit d then (let (ds, r) = digitrest cs' in (d # ds, r)) else ([], c # cs))
      else ([], c # cs))"

definition digitpart :: "string \<Rightarrow> (string \<times> string) option" where
  "digitpart s =
     (case s of
        [] \<Rightarrow> None
      | c # cs \<Rightarrow> if is_digit c then (let (ds, r) = digitrest cs in Some (c # ds, r)) else None)"

definition read_sign :: "string \<Rightarrow> bool \<times> string" where
  "read_sign s =
     (case s of
        [] \<Rightarrow> (False, s)
      | c # cs \<Rightarrow> if c = CHR ''-'' then (True, cs) else if c = CHR ''+'' then (False, cs) else (False, s))"

definition int_of_str :: "string \<Rightarrow> py_error + int" where
  "int_of_str s =
     (let (neg, r) = read_sign (strip s) in
      case digitpart r of
        None \<Rightarrow> Inl ValueError
      | Some (ds, rest) \<Rightarrow>
          if rest = [] then Inr (if neg then - int (int_of_digits ds) else int (int_of_digits ds))
          else Inl ValueError)"

definition py_int :: "py_arg \<Rightarrow> py_error + int" where
  "py_int a =
     (case a of
        IntArg n \<Rightarrow> Inr n
      | FloatArg x \<Rightarrow> Inr (int_of_float x)
      | StrArg s \<Rightarrow> int_of_str s
      | NoneArg \<Rightarrow> Inl TypeError)"

definition format_time :: "py_arg \<Rightarrow> string" where
  "format_time seconds =
     (case py_int seconds of
        Inl e \<Rightarrow> ''N/A''
      | Inr seconds \<Rightarrow>
          if seconds < 0 then ''00:00:00''
          else
            (let hours = seconds div 3600;
                 minutes = (seconds mod 3600) div 60;
                 sec = seconds mod 60
             in fmt_02d (nat hours) @ '':'' @ fmt_02d (nat minutes) @ '':'' @ fmt_02d (nat sec)))"

text \<open>The class constants of \<^verbatim>\<open>PlatingCalculator\<close>.\<close>

definition MOLAR_MASS_G_MOL :: real where "MOLAR_MASS_G_MOL = 150"
definition DENSITY_G_CM3 :: real where "DENSITY_G_CM3 = 10"
definition CHARGE_VALENCE :: real where "CHARGE_VALENCE = 2"
definition CURRENT_EFFICIENCY :: real where "CURRENT_EFFICIENCY = 95 / 100"
definition F :: real where "F = 96485"

definition CURRENT_DENSITY_MAP :: "int \<rightharpoonup> real" where
  "CURRENT_DENSITY_MAP = [1 \<mapsto> 5, 2 \<mapsto> 4, 3 \<mapsto> 3, 4 \<mapsto> 25 / 10, 5 \<mapsto> 2]"

text \<open>The dict returned by \<^verbatim>\<open>calculate_metrics\<close>; the fields are its three keys.\<close>

record metrics =
  key_target_current_A :: real
  key_target_voltage_V :: real
  key_estimated_time_sec :: real

text \<open>The body of the \<^verbatim>\<open>try\<close> block of \<^verbatim>\<open>calculate_metrics\<close>.\<close>

definition calculate_metrics_body :: "real \<Rightarrow> real \<Rightarrow> int \<Rightarrow> py_error + metrics" where
  "calculate_metrics_body thickness_um area_cm2 complexity_level =
     (case dict_item CURRENT_DENSITY_MAP 1 of
        Inl e \<Rightarrow> Inl e
      | Inr level1 \<Rightarrow>
          (let density_mA_cm2 = dict_get CURRENT_DENSITY_MAP complexity_level level1;
               target_current_A = (density_mA_cm2 / 1000) * area_cm2;
               thickness_cm = thickness_um / 10000;
               volume_cm3 = thickness_cm * area_cm2;
               target_mass_g = volume_cm3 * DENSITY_G_CM3;
               numerator = target_mass_g * CHARGE_VALENCE * F;
               denominator = MOLAR_MASS_G_MOL * target_current_A * CURRENT_EFFICIENCY
           in case float_div numerator denominator of
                Inl e \<Rightarrow> Inl e
              | Inr estimated_time_sec \<Rightarrow>
                  (let voltage_factor = 1 + of_int (complexity_level - 1) * (2 / 10);
                       target_voltage_V = 2 * voltage_factor
                   in Inr \<lparr>key_target_current_A = target_current_A,
                           key_target_voltage_V = target_voltage_V,
                           key_estimated_time_sec = estimated_time_sec\<rparr>)))"

text \<open>The \<^verbatim>\<open>except (ValueError, ZeroDivisionError, TypeError)\<close> clause: these three give
  the zero dict, any other exception leaves the function.\<close>

definition zero_metrics :: metrics where
  "zero_metrics = \<lparr>key_target_current_A = 0, key_target_voltage_V = 0, key_estimated_time_sec = 0\<rparr>"

definition calculate_metrics :: "real \<Rightarrow> real \<Rightarrow> int \<Rightarrow> py_error + metrics" where
  "calculate_metrics thickness_um area_cm2 complexity_level =
     (case calculate_metrics_body thickness_um area_cm2 complexity_level of
        Inr m \<Rightarrow> Inr m
      | Inl e \<Rightarrow>
          if e = ValueError \<or> e = ZeroDivisionError \<or> e = TypeError then Inr zero_metrics
          else Inl e)"

subsection \<open>\<^verbatim>\<open>float(s)\<close> on a string\<close>

text \<open>
  A value produced by \<^verbatim>\<open>float\<close> of a string. The grammar is Python's: optional sign, then
  \<^verbatim>\<open>inf\<close>, \<^verbatim>\<open>infinity\<close> or \<^verbatim>\<open>nan\<close> in any case, or digits with an optional fraction and
  exponent; surrounding whitespace is dropped. Anything else raises \<^verbatim>\<open>ValueError\<close>.
\<close>

datatype pyfloat = Finite real | PosInf | NegInf | NaN

definition pow10 :: "int \<Rightarrow> real" where
  "pow10 e = (if 0 \<le> e then 10 ^ nat e else 1 / 10 ^ nat (- e))"

definition frac_value :: "string \<Rightarrow> real" where
  "frac_value ds = of_nat (int_of_digits ds) / 10 ^ length ds"

definition read_fraction :: "string \<Rightarrow> (real \<times> string) option" where
  "read_fraction s =
     (case s of
        [] \<Rightarrow> None
      | c # r \<Rightarrow>
          if c = CHR ''.'' then
            (case digitpart r of None \<Rightarrow> None | Some (fp, r') \<Rightarrow> Some (frac_value fp, r'))
          else None)"

definition read_number :: "string \<Rightarrow> (real \<times> string) option" where
  "read_number s =
     (case digitpart s of
        None \<Rightarrow> read_fraction s
      | Some (ip, r) \<Rightarrow>
          (case read_fraction r of
             Some (f, r') \<Rightarrow> Some (of_nat (int_of_digits ip) + f, r')
           | None \<Rightarrow>
               (case r of
                  [] \<Rightarrow> Some (of_nat (int_of_digits ip), [])
                | c # r' \<Rightarrow>
                    if c = CHR ''.'' then Some (of_nat (int_of_digits ip), r')
                    else Some (of_nat (int_of_digits ip), r))))"

definition read_exponent :: "string \<Rightarrow> (int \<times> string) option" where
  "read_exponent s =
     (case s of
        [] \<Rightarrow> Some (0, [])
      | c # r \<Rightarrow>
          if c = CHR ''e'' \<or> c = CHR ''E'' then
            (let (neg, r') = read_sign r in
             case digitpart r' of
               None \<Rightarrow> None
             | Some (ds, r'') \<Rightarrow>
                 Some (if neg then - int (int_of_digits ds) else int (int_of_digits ds), r''))
          else Some (0, s))"

definition py_float :: "string \<Rightarrow> py_error + pyfloat" where
  "py_float s =
     (let (neg, r) = read_sign (strip s); u = upper r in
      if u = ''INF'' \<or> u = ''INFINITY'' then Inr (if neg then NegInf else PosInf)
      else if u = ''NAN'' then Inr NaN
      else
        (case read_number r of
           None \<Rightarrow> Inl ValueError
         | Some (m, r1) \<Rightarrow>
             (case read_exponent r1 of
                None \<Rightarrow> Inl ValueError
              | Some (e, r2) \<Rightarrow>
                  if r2 = [] then Inr (Finite ((if neg then - m else m) * pow10 e))
                  else Inl ValueError)))"

subsection \<open>scpi.py\<close>

text \<open>
  The VISA layer. Every call into it (opening the resource, a write, a query, the close)
  is one operation; the instrument and the serial line answer it with a reply, or the
  call raises \<^verbatim>\<open>VisaIOError\<close>, which is the answer \<open>None\<close>. A transport gives the answer
  to the \<open>k\<close>-th operation. The two formatted writes \<^verbatim>\<open>VOLTage {V:.2f}\<close> and
  \<^verbatim>\<open>CURRent {A:.3f}\<close> carry their value instead of its printed form.
\<close>

datatype visa_op =
    OpenResource string
  | Write string
  | WriteVOLTage pyfloat
  | WriteCURRent pyfloat
  | Query string
  | Close

type_synonym transport = "nat \<Rightarrow> visa_op \<Rightarrow> string option"

definition PSU_ADDRESS :: string where
  "PSU_ADDRESS = ''ASRL/dev/ttyUSB0::INSTR''"

text \<open>
  The fields of \<^verbatim>\<open>PowerSupplyInterface\<close>. \<open>psu\<close> and \<open>rm\<close> say whether the attribute
  holds an object (\<open>True\<close>) or \<^verbatim>\<open>None\<close>. Two fields are bookkeeping of the model only:
  \<open>wire\<close> lists the operations handed to the VISA layer so far, \<open>cmd_log\<close> the argument of
  every call of \<^verbatim>\<open>send_command\<close>.
\<close>

record PowerSupplyInterface =
  is_connected :: bool
  output_on :: bool
  psu :: bool
  rm :: bool
  wire :: "visa_op list"
  cmd_log :: "string list"

definition PowerSupplyInterface_init :: PowerSupplyInterface where
  "PowerSupplyInterface_init =
     \<lparr>is_connected = False, output_on = False, psu = False, rm = False, wire = [], cmd_log = []\<rparr>"

definition visa_io :: "transport \<Rightarrow> visa_op \<Rightarrow> PowerSupplyInterface \<Rightarrow> string option \<times> PowerSupplyInterface" where
  "visa_io tr opn p = (tr (length (wire p)) opn, p\<lparr>wire := wire p @ [opn]\<rparr>)"

text \<open>\<^verbatim>\<open>connect\<close>. The clause \<^verbatim>\<open>except Exception\<close> has no branch here: the transport raises
  nothing but \<^verbatim>\<open>VisaIOError\<close>.\<close>

definition connect :: "transport \<Rightarrow> PowerSupplyInterface \<Rightarrow> bool \<times> PowerSupplyInterface" where
  "connect tr p =
     (if is_connected p then (True, p)
      else
        (case visa_io tr (OpenResource PSU_ADDRESS) p of
           (None, p1) \<Rightarrow> (False, p1\<lparr>is_connected := False, psu := False, rm := False\<rparr>)
         | (Some h, p1) \<Rightarrow>
             (case visa_io tr (Query ''*IDN?'') (p1\<lparr>rm := True, psu := True\<rparr>) of
                (None, p2) \<Rightarrow> (False, p2\<lparr>is_connected := False, psu := False, rm := False\<rparr>)
              | (Some idn, p2) \<Rightarrow> (True, p2\<lparr>is_connected := True\<rparr>))))"

definition disconnect :: "transport \<Rightarrow> PowerSupplyInterface \<Rightarrow> PowerSupplyInterface" where
  "disconnect tr p =
     (let p1 =
        (if psu p then
           (case visa_io tr (Write ''OUTP OFF'') p of
              (None, q) \<Rightarrow> q\<lparr>psu := False\<rparr>
            | (Some a, q) \<Rightarrow> (snd (visa_io tr Close q))\<lparr>psu := False\<rparr>)
         else p)
      in p1\<lparr>is_connected := False, output_on := False\<rparr>)"

text \<open>
  \<^verbatim>\<open>send_command\<close>. The bodies of its three \<^verbatim>\<open>try\<close> blocks are named: \<open>apply_block\<close> for
  the \<^verbatim>\<open>APPLY\<close> branch (a command of another length than three parts leaves the block and
  reaches the final \<^verbatim>\<open>return False\<close>), \<open>output_block\<close> for \<^verbatim>\<open>OUTP ON\<close> and \<^verbatim>\<open>OUTP OFF\<close>.
\<close>

definition write_setpoints ::
  "transport \<Rightarrow> pyfloat \<Rightarrow> pyfloat \<Rightarrow> PowerSupplyInterface \<Rightarrow> bool \<times> PowerSupplyInterface" where
  "write_setpoints tr V A p =
     (case visa_io tr (WriteVOLTage V) p of
        (None, p1) \<Rightarrow> (False, p1)
      | (Some a, p1) \<Rightarrow>
          (case visa_io tr (WriteCURRent A) p1 of
             (None, p2) \<Rightarrow> (False, p2)
           | (Some b, p2) \<Rightarrow> (True, p2)))"

definition apply_block ::
  "transport \<Rightarrow> string \<Rightarrow> PowerSupplyInterface \<Rightarrow> bool \<times> PowerSupplyInterface" where
  "apply_block tr command p =
     (let parts = split command in
      if length parts = 3 then
        (case py_float (parts ! 1) of
           Inl e \<Rightarrow> (False, p)
         | Inr V \<Rightarrow>
             (case py_float (parts ! 2) of
                Inl e \<Rightarrow> (False, p)
              | Inr A \<Rightarrow> write_setpoints tr V A p))
      else (False, p))"

definition output_block ::
  "transport \<Rightarrow> bool \<Rightarrow> PowerSupplyInterface \<Rightarrow> bool \<times> PowerSupplyInterface" where
  "output_block tr on p =
     (case visa_io tr (Write (if on then ''OUTPut:STATe ON'' else ''OUTPut:STATe OFF'')) p of
        (None, p1) \<Rightarrow> (False, p1)
      | (Some a, p1) \<Rightarrow> (True, p1\<lparr>output_on := on\<rparr>))"

definition send_command :: "transport \<Rightarrow> string \<Rightarrow> PowerSupplyInterface \<Rightarrow> bool \<times> PowerSupplyInterface" where
  "send_command tr command p0 =
     (let p = p0\<lparr>cmd_log := cmd_log p0 @ [command]\<rparr> in
      if \<not> is_connected p \<or> \<not> psu p then (False, p)
      else
        (let command = upper (strip command) in
         if startswith command ''APPLY'' then apply_block tr command p
         else if command = ''OUTP ON'' then output_block tr True p
         else if command = ''OUTP OFF'' then output_block tr False p
         else (False, p)))"

text \<open>
  \<^verbatim>\<open>read_data\<close>. \<open>comms_failure\<close> is the handler of \<^verbatim>\<open>VisaIOError\<close>: it keeps the values
  read so far and disconnects. The three queries of the \<^verbatim>\<open>try\<close> block are named after
  what they read, each continuing with the next.
\<close>

definition comms_failure ::
  "transport \<Rightarrow> pyfloat \<Rightarrow> pyfloat \<Rightarrow> PowerSupplyInterface \<Rightarrow> (pyfloat \<times> pyfloat \<times> string) \<times> PowerSupplyInterface" where
  "comms_failure tr V A p = ((V, A, ''COMMS ERROR - PSU OFFLINE''), disconnect tr p)"

definition read_error_state ::
  "transport \<Rightarrow> pyfloat \<Rightarrow> pyfloat \<Rightarrow> PowerSupplyInterface \<Rightarrow> (pyfloat \<times> pyfloat \<times> string) \<times> PowerSupplyInterface" where
  "read_error_state tr V A p =
     (case visa_io tr (Query ''SYSTem:ERRor?'') p of
        (None, p1) \<Rightarrow> ((V, A, ''PLATING ACTIVE''), p1)
      | (Some re, p1) \<Rightarrow>
          (let error_state = strip re in
           if \<not> contains error_state ''No error'' then
             ((V, A, ''ALERT: PSU Error ('' @ error_state @ '')''), p1)
           else ((V, A, ''PLATING ACTIVE''), p1)))"

definition read_current ::
  "transport \<Rightarrow> pyfloat \<Rightarrow> PowerSupplyInterface \<Rightarrow> (pyfloat \<times> pyfloat \<times> string) \<times> PowerSupplyInterface" where
  "read_current tr V p =
     (case visa_io tr (Query ''MEASure:CURRent?'') p of
        (None, p1) \<Rightarrow> comms_failure tr V (Finite 0) p1
      | (Some ra, p1) \<Rightarrow>
          (case py_float (strip ra) of
             Inl e \<Rightarrow> ((V, Finite 0, ''MEASUREMENT READ FAIL''), p1)
           | Inr A \<Rightarrow> read_error_state tr V A p1))"

definition read_voltage ::
  "transport \<Rightarrow> PowerSupplyInterface \<Rightarrow> (pyfloat \<times> pyfloat \<times> string) \<times> PowerSupplyInterface" where
  "read_voltage tr p =
     (case visa_io tr (Query ''MEASure:VOLTage?'') p of
        (None, p1) \<Rightarrow> comms_failure tr (Finite 0) (Finite 0) p1
      | (Some rv, p1) \<Rightarrow>
          (case py_float (strip rv) of
             Inl e \<Rightarrow> ((Finite 0, Finite 0, ''MEASUREMENT READ FAIL''), p1)
           | Inr V \<Rightarrow> read_current tr V p1))"

definition read_data ::
  "transport \<Rightarrow> PowerSupplyInterface \<Rightarrow> (pyfloat \<times> pyfloat \<times> string) \<times> PowerSupplyInterface" where
  "read_data tr p =
     (if \<not> is_connected p \<or> \<not> psu p then ((Finite 0, Finite 0, ''NOT CONNECTED''), p)
      else if \<not> output_on p then ((Finite 0, Finite 0, ''OUTPUT OFF (Connected)''), p)
      else read_voltage tr p)"

subsection \<open>gui.py: the state of \<^verbatim>\<open>ElectroplatingControllerApp\<close>\<close>

text \<open>
  The attributes set in \<^verbatim>\<open>build\<close>, and of the widgets the properties the handlers write:
  the text and the \<^verbatim>\<open>disabled\<close> flag of the buttons, the text of the status, elapsed-time
  and estimated-time labels, the value of the progress bar. \<open>live_update_event\<close> is
  \<open>True\<close> while the attribute holds a scheduled clock event and \<open>False\<close> when it is
  \<^verbatim>\<open>None\<close>. \<open>modals\<close> lists the titles of the dialogs opened by \<^verbatim>\<open>show_modal\<close>. The labels
  that only print a float, the text of the two input fields, the colours and the layout are
  left out: no handler reads them.
\<close>

record app =
  target_thickness_um :: real
  target_area_cm2 :: real
  complexity :: int
  current_readout_V :: pyfloat
  current_readout_A :: pyfloat
  status_message :: string
  progress_percent :: int
  time_elapsed_sec :: int
  is_plating_active :: bool
  target_current_A :: real
  target_voltage_V :: real
  estimated_time_sec :: real
  psu_interface :: PowerSupplyInterface
  live_update_event :: bool
  status_label_text :: string
  time_elapsed_label_text :: string
  estimated_time_label_text :: string
  progress_bar_value :: int
  connect_btn_text :: string
  connect_btn_disabled :: bool
  start_btn_text :: string
  start_btn_disabled :: bool
  pause_btn_disabled :: bool
  abort_btn_disabled :: bool
  modals :: "string list"

definition show_modal :: "string \<Rightarrow> app \<Rightarrow> app" where
  "show_modal title s = s\<lparr>modals := modals s @ [title]\<rparr>"

text \<open>\<^verbatim>\<open>update_calculations\<close>. \<^verbatim>\<open>calculate_metrics\<close> always returns
  (lemma \<open>calculate_metrics_returns\<close> below), so the branch of an exception leaving it is
  never taken.\<close>

definition update_calculations :: "app \<Rightarrow> app" where
  "update_calculations s =
     (case calculate_metrics (target_thickness_um s) (target_area_cm2 s) (complexity s) of
        Inl e \<Rightarrow> s
      | Inr metrics \<Rightarrow>
          (let s1 = s\<lparr>target_current_A := key_target_current_A metrics,
                      target_voltage_V := key_target_voltage_V metrics,
                      estimated_time_sec := key_estimated_time_sec metrics\<rparr>;
               s2 = s1\<lparr>estimated_time_label_text := format_time (FloatArg (estimated_time_sec s1))\<rparr>
           in s2\<lparr>start_btn_disabled :=
                   (\<not> is_connected (psu_interface s2) \<or> estimated_time_sec s2 \<le> 0
                    \<or> is_plating_active s2)\<rparr>))"

text \<open>\<^verbatim>\<open>build\<close>: the initial attributes, then \<^verbatim>\<open>update_calculations\<close>.\<close>

definition build :: app where
  "build = update_calculations
     \<lparr>target_thickness_um = 10, target_area_cm2 = 50, complexity = 1,
      current_readout_V = Finite 0, current_readout_A = Finite 0,
      status_message = ''NOT CONNECTED'', progress_percent = 0, time_elapsed_sec = 0,
      is_plating_active = False,
      target_current_A = 0, target_voltage_V = 0, estimated_time_sec = 0,
      psu_interface = PowerSupplyInterface_init, live_update_event = False,
      status_label_text = ''NOT CONNECTED'',
      time_elapsed_label_text = format_time (IntArg 0),
      estimated_time_label_text = format_time (IntArg 0),
      progress_bar_value = 0,
      connect_btn_text = ''CONNECT'', connect_btn_disabled = False,
      start_btn_text = ''START PLATING'', start_btn_disabled = True,
      pause_btn_disabled = True, abort_btn_disabled = True,
      modals = []\<rparr>"

subsection \<open>gui.py: input handlers\<close>

text \<open>
  \<^verbatim>\<open>on_thickness_input\<close> and \<^verbatim>\<open>on_area_input\<close>. The argument \<open>val\<close> is the outcome of
  \<^verbatim>\<open>float(instance.text)\<close>: a finite value, or \<open>None\<close> when the conversion raises
  \<^verbatim>\<open>ValueError\<close>. Both rejections end in the same \<^verbatim>\<open>except\<close> clause.
\<close>

definition on_thickness_input :: "real option \<Rightarrow> app \<Rightarrow> app" where
  "on_thickness_input val s =
     (case val of
        None \<Rightarrow> show_modal ''Input Error'' s
      | Some v \<Rightarrow>
          if v \<le> 0 then show_modal ''Input Error'' s
          else update_calculations (s\<lparr>target_thickness_um := v\<rparr>))"

definition on_area_input :: "real option \<Rightarrow> app \<Rightarrow> app" where
  "on_area_input val s =
     (case val of
        None \<Rightarrow> show_modal ''Input Error'' s
      | Some v \<Rightarrow>
          if v \<le> 0 then show_modal ''Input Error'' s
          else update_calculations (s\<lparr>target_area_cm2 := v\<rparr>))"

text \<open>\<^verbatim>\<open>on_complexity_change\<close>: \<open>val\<close> is the float value of the slider.\<close>

definition on_complexity_change :: "real \<Rightarrow> app \<Rightarrow> app" where
  "on_complexity_change val s = update_calculations (s\<lparr>complexity := int_of_float val\<rparr>)"

subsection \<open>gui.py: control handlers\<close>

definition execute_abort :: "transport \<Rightarrow> app \<Rightarrow> app" where
  "execute_abort tr s =
     (let s1 = (if live_update_event s then s\<lparr>live_update_event := False\<rparr> else s);
          s2 = s1\<lparr>psu_interface := snd (send_command tr ''OUTP OFF'' (psu_interface s1))\<rparr>;
          s3 = s2\<lparr>is_plating_active := False, time_elapsed_sec := 0, progress_percent := 0,
                   start_btn_text := ''START PLATING'',
                   status_message := ''ABORTED. Resetting.'',
                   status_label_text := ''ABORTED. Resetting.'',
                   start_btn_disabled := False, pause_btn_disabled := True,
                   abort_btn_disabled := True, connect_btn_disabled := False,
                   current_readout_V := Finite 0, current_readout_A := Finite 0\<rparr>
      in s3\<lparr>time_elapsed_label_text := format_time (IntArg (time_elapsed_sec s3)),
             progress_bar_value := 0,
             status_label_text := ''ABORTED. Resetting.''\<rparr>)"

definition on_connect_toggle :: "transport \<Rightarrow> app \<Rightarrow> app" where
  "on_connect_toggle tr s =
     (let s1 =
        (if \<not> is_connected (psu_interface s) then
           (case connect tr (psu_interface s) of
              (True, p) \<Rightarrow>
                s\<lparr>psu_interface := p, status_message := ''CONNECTED (Ready to Apply)'',
                  connect_btn_text := ''DISCONNECT'',
                  start_btn_disabled := (estimated_time_sec s \<le> 0)\<rparr>
            | (False, p) \<Rightarrow>
                show_modal ''Connection Failed''
                  (s\<lparr>psu_interface := p, status_message := ''CONNECTION FAILED''\<rparr>))
         else
           s\<lparr>psu_interface := disconnect tr (psu_interface s),
             status_message := ''DISCONNECTED'', connect_btn_text := ''CONNECT'',
             start_btn_disabled := True\<rparr>);
          s2 = s1\<lparr>status_label_text := status_message s1, pause_btn_disabled := True,
                   abort_btn_disabled := True\<rparr>
      in if \<not> is_connected (psu_interface s2) \<and> is_plating_active s2 then execute_abort tr s2
         else s2)"

definition start_process :: "transport \<Rightarrow> app \<Rightarrow> app" where
  "start_process tr s =
     (if \<not> is_connected (psu_interface s) \<or> estimated_time_sec s \<le> 0 then show_modal ''Error'' s
      else
        (let apply_command =
               ''APPLY '' @ float_repr (target_voltage_V s) @ '' '' @ float_repr (target_current_A s)
         in case send_command tr apply_command (psu_interface s) of
              (False, p) \<Rightarrow>
                s\<lparr>psu_interface := p, status_message := ''ERROR: Failed to set parameters.'',
                  status_label_text := ''ERROR: Failed to set parameters.''\<rparr>
            | (True, p) \<Rightarrow>
                (case send_command tr ''OUTP ON'' p of
                   (True, p') \<Rightarrow>
                     s\<lparr>psu_interface := p', is_plating_active := True, time_elapsed_sec := 0,
                       progress_percent := 0, live_update_event := True,
                       status_message := ''PLATING ACTIVE'', start_btn_text := ''START PLATING'',
                       start_btn_disabled := True, pause_btn_disabled := False,
                       abort_btn_disabled := False, connect_btn_disabled := True,
                       status_label_text := ''PLATING ACTIVE''\<rparr>
                 | (False, p') \<Rightarrow>
                     s\<lparr>psu_interface := p', status_message := ''ERROR: Failed to turn output ON.'',
                       status_label_text := ''ERROR: Failed to turn output ON.''\<rparr>)))"

definition on_pause_plating :: "transport \<Rightarrow> app \<Rightarrow> app" where
  "on_pause_plating tr s =
     (if is_plating_active s then
        (let s1 = s\<lparr>psu_interface := snd (send_command tr ''OUTP OFF'' (psu_interface s))\<rparr>;
             s2 = s1\<lparr>is_plating_active := False\<rparr>;
             s3 = (if live_update_event s2 then s2\<lparr>live_update_event := False\<rparr> else s2);
             msg = ''PAUSED (Elapsed: '' @ format_time (IntArg (time_elapsed_sec s3)) @ '')''
         in s3\<lparr>status_message := msg, status_label_text := msg, start_btn_text := ''RESUME'',
                start_btn_disabled := False, pause_btn_disabled := True,
                abort_btn_disabled := False, connect_btn_disabled := True\<rparr>)
      else s)"

subsection \<open>gui.py: live monitoring\<close>

definition live_monitor :: "transport \<Rightarrow> app \<Rightarrow> app" where
  "live_monitor tr s =
     (if \<not> is_plating_active s then s
      else
        (case read_data tr (psu_interface s) of
           ((V, A, status), p) \<Rightarrow>
             (let s1 = s\<lparr>psu_interface := p, current_readout_V := V, current_readout_A := A\<rparr>;
                  s2 = s1\<lparr>time_elapsed_sec := time_elapsed_sec s1 + 1\<rparr>;
                  s3 = s2\<lparr>time_elapsed_label_text := format_time (IntArg (time_elapsed_sec s2))\<rparr>;
                  s4 = (if estimated_time_sec s3 > 0 then
                          s3\<lparr>progress_percent :=
                               min 100 (int_of_float
                                 ((of_int (time_elapsed_sec s3) / estimated_time_sec s3) * 100))\<rparr>
                        else s3\<lparr>progress_percent := 0\<rparr>);
                  s5 = s4\<lparr>progress_bar_value := progress_percent s4,
                          status_label_text := status @ '' ('' @ str_int (progress_percent s4) @ ''%)''\<rparr>;
                  s6 = (if contains status ''ALERT'' then show_modal ''Instrument Alert'' s5 else s5)
              in if of_int (time_elapsed_sec s6) \<ge> estimated_time_sec s6 then
                   (let s7 = (if live_update_event s6 then s6\<lparr>live_update_event := False\<rparr> else s6);
                        s8 = s7\<lparr>psu_interface := snd (send_command tr ''OUTP OFF'' (psu_interface s7))\<rparr>;
                        s9 = s8\<lparr>is_plating_active := False, status_message := ''PLATING COMPLETE'',
                                progress_bar_value := 100, status_label_text := ''PLATING COMPLETE'',
                                time_elapsed_label_text := format_time (FloatArg (estimated_time_sec s8)),
                                start_btn_disabled := True, pause_btn_disabled := True,
                                abort_btn_disabled := True, connect_btn_disabled := False\<rparr>
                    in show_modal ''Process Complete'' s9)
                 else s6)))"

text \<open>
  The Kivy clock: \<^verbatim>\<open>Clock.schedule_interval(self.live_monitor, 1.0)\<close> calls the handler once
  per second for as long as the event is scheduled; \<^verbatim>\<open>cancel()\<close> ends that.
\<close>

definition clock_tick :: "transport \<Rightarrow> app \<Rightarrow> app" where
  "clock_tick tr s = (if live_update_event s then live_monitor tr s else s)"

subsection \<open>Events and reachable states\<close>

text \<open>
  The callbacks Kivy can deliver, and the states a run can reach from \<^verbatim>\<open>build\<close>. Every
  callback is allowed in every state: the \<^verbatim>\<open>disabled\<close> flags only remove some of them, so
  what holds of these states holds of the program's.
\<close>

datatype edit = ThicknessInput "real option" | AreaInput "real option" | ComplexityChange real

fun apply_edit :: "edit \<Rightarrow> app \<Rightarrow> app" where
  "apply_edit (ThicknessInput val) s = on_thickness_input val s"
| "apply_edit (AreaInput val) s = on_area_input val s"
| "apply_edit (ComplexityChange val) s = on_complexity_change val s"

datatype event = Edit edit | ConnectToggle | StartProcess | PausePlating | ExecuteAbort | ClockTick

fun dispatch :: "transport \<Rightarrow> event \<Rightarrow> app \<Rightarrow> app" where
  "dispatch tr (Edit e) s = apply_edit e s"
| "dispatch tr ConnectToggle s = on_connect_toggle tr s"
| "dispatch tr StartProcess s = start_process tr s"
| "dispatch tr PausePlating s = on_pause_plating tr s"
| "dispatch tr ExecuteAbort s = execute_abort tr s"
| "dispatch tr ClockTick s = clock_tick tr s"

inductive reachable :: "transport \<Rightarrow> app \<Rightarrow> bool" for tr :: transport where
  reachable_build: "reachable tr build"
| reachable_dispatch: "reachable tr s \<Longrightarrow> reachable tr (dispatch tr ev s)"

text \<open>The process parameters and the computed targets held by a state; the targets are
  consistent when they are what \<^verbatim>\<open>calculate_metrics\<close> gives for the parameters.\<close>

definition parameters :: "app \<Rightarrow> real \<times> real \<times> int" where
  "parameters s = (target_thickness_um s, target_area_cm2 s, complexity s)"

definition computed_targets :: "app \<Rightarrow> metrics" where
  "computed_targets s =
     \<lparr>key_target_current_A = target_current_A s,
      key_target_voltage_V = target_voltage_V s,
      key_estimated_time_sec = estimated_time_sec s\<rparr>"

definition targets_consistent :: "app \<Rightarrow> bool" where
  "targets_consistent s =
     (calculate_metrics (target_thickness_um s) (target_area_cm2 s) (complexity s) =
      Inr (computed_targets s))"

subsection \<open>Two instruments for concrete runs\<close>

text \<open>A supply that answers every operation, and one whose line goes dead after its first
  \<open>n\<close> operations.\<close>

definition bench_psu :: transport where
  "bench_psu k opn =
     (case opn of
        Query q \<Rightarrow>
          if q = ''*IDN?'' then Some ''BENCH,PSU,0,1.0''
          else if q = ''SYSTem:ERRor?'' then Some ''0,No error''
          else if q = ''MEASure:VOLTage?'' then Some ''2.00''
          else Some ''0.250''
      | _ \<Rightarrow> Some [])"

definition unplugged_after :: "nat \<Rightarrow> transport" where
  "unplugged_after n k opn = (if k < n then bench_psu k opn else None)"

text \<open>A run on an instrument: connect, then start with the default parameters of
  \<^verbatim>\<open>build\<close>; and the same run paused after three ticks.\<close>

definition plating_run :: "transport \<Rightarrow> app" where
  "plating_run tr = start_process tr (on_connect_toggle tr build)"

definition paused_run :: "transport \<Rightarrow> app" where
  "paused_run tr = on_pause_plating tr (clock_tick tr (clock_tick tr (clock_tick tr (plating_run tr))))"

text \<open>A run whose estimated time is a whole number of seconds (thickness 142.5 gives
  38594 s), one tick before its end.\<close>

definition long_run :: app where
  "long_run =
     start_process bench_psu
       (on_thickness_input (Some (285 / 2)) (on_connect_toggle bench_psu build))"


text \<open>A connected controller whose area has been set to 0 and whose targets have been
  recomputed.\<close>

definition zero_area_state :: app where
  "zero_area_state =
     update_calculations ((on_connect_toggle bench_psu build)\<lparr>target_area_cm2 := 0\<rparr>)"

section \<open>Properties\<close>

subsection \<open>The calculator\<close>

lemmas calculator_defs =
  calculate_metrics_def calculate_metrics_body_def dict_item_def dict_get_def
  CURRENT_DENSITY_MAP_def float_div_def MOLAR_MASS_G_MOL_def DENSITY_G_CM3_def
  CHARGE_VALENCE_def CURRENT_EFFICIENCY_def F_def zero_metrics_def

lemma calculate_metrics_zero_area: "calculate_metrics t 0 c = Inr zero_metrics"
  by (simp add: calculator_defs)

lemma calculate_metrics_returns: "\<exists>m. calculate_metrics t a c = Inr m"
  by (simp add: calculator_defs Let_def)

lemma calculate_metrics_time_positive:
  assumes "0 < t" and "0 < a" and "calculate_metrics t a c = Inr m"
  shows "0 < key_estimated_time_sec m"
proof -
  have "dict_get CURRENT_DENSITY_MAP c 5 > 0"
    by (simp add: dict_get_def CURRENT_DENSITY_MAP_def)
  with assms show ?thesis
    by (auto simp add: calculate_metrics_def calculate_metrics_body_def dict_item_def float_div_def
        MOLAR_MASS_G_MOL_def DENSITY_G_CM3_def CHARGE_VALENCE_def CURRENT_EFFICIENCY_def F_def
        Let_def CURRENT_DENSITY_MAP_def)
qed



text \<open>
  Claim C7. For thickness 10, area 50 and level 3 the calculator returns the current 0.15,
  the voltage 2.8 and the time 771880/171 = 4513.918..., which is within 0.01 of 4513.92;
  \<^verbatim>\<open>format_time\<close> of that time is \<^verbatim>\<open>01:15:13\<close>.
\<close>

theorem calculate_metrics_reference_values:
  "\<exists>m. calculate_metrics 10 50 3 = Inr m \<and> key_target_current_A m = 15 / 100 \<and>
     key_target_voltage_V m = 28 / 10 \<and>
     \<bar>key_estimated_time_sec m - 451392 / 100\<bar> < 1 / 100 \<and>
     format_time (FloatArg (key_estimated_time_sec m)) = ''01:15:13''"
proof -
  have m: "calculate_metrics 10 50 3 =
      Inr \<lparr>key_target_current_A = 15 / 100, key_target_voltage_V = 28 / 10,
           key_estimated_time_sec = 771880 / 171\<rparr>"
    by (simp add: calculator_defs)
  have f: "format_time (FloatArg (771880 / 171)) = ''01:15:13''"
    by code_simp
  show ?thesis unfolding m using f by simp
qed

theorem calculate_metrics_reference_values_witness:
  "\<exists>m. calculate_metrics 10 50 3 = Inr m \<and> key_target_current_A m = 15 / 100 \<and>
     key_target_voltage_V m = 28 / 10"
  using calculate_metrics_reference_values by blast

subsection \<open>The interface: what a call leaves unchanged\<close>

lemma write_setpoints_cmd_log: "cmd_log (snd (write_setpoints tr V A p)) = cmd_log p"
  by (simp add: write_setpoints_def visa_io_def split: option.split)

lemma apply_block_cmd_log: "cmd_log (snd (apply_block tr c p)) = cmd_log p"
  by (simp add: apply_block_def Let_def write_setpoints_cmd_log split: sum.split)

lemma output_block_cmd_log: "cmd_log (snd (output_block tr b p)) = cmd_log p"
  by (simp add: output_block_def visa_io_def split: option.split)

lemma send_command_cmd_log: "cmd_log (snd (send_command tr c p)) = cmd_log p @ [c]"
  by (simp add: send_command_def Let_def apply_block_cmd_log output_block_cmd_log)

lemma write_setpoints_is_connected:
  "is_connected (snd (write_setpoints tr V A p)) = is_connected p"
  by (simp add: write_setpoints_def visa_io_def split: option.split)

lemma apply_block_is_connected: "is_connected (snd (apply_block tr c p)) = is_connected p"
  by (simp add: apply_block_def Let_def write_setpoints_is_connected split: sum.split)

lemma output_block_is_connected: "is_connected (snd (output_block tr b p)) = is_connected p"
  by (simp add: output_block_def visa_io_def split: option.split)

lemma send_command_is_connected: "is_connected (snd (send_command tr c p)) = is_connected p"
  by (simp add: send_command_def Let_def apply_block_is_connected output_block_is_connected)






lemma read_data_not_connected:
  "\<not> is_connected p \<Longrightarrow> read_data tr p = ((Finite 0, Finite 0, ''NOT CONNECTED''), p)"
  by (simp add: read_data_def)

lemma read_data_comms_failure:
  assumes "is_connected p" and "psu p" and "output_on p"
    and "tr (length (wire p)) (Query ''MEASure:VOLTage?'') = None"
  shows "fst (read_data tr p) = (Finite 0, Finite 0, ''COMMS ERROR - PSU OFFLINE'') \<and>
         \<not> is_connected (snd (read_data tr p)) \<and> \<not> psu (snd (read_data tr p))"
  using assms
  by (simp add: read_data_def read_voltage_def visa_io_def comms_failure_def disconnect_def Let_def
      split: option.split)

subsection \<open>Commands the interface refuses\<close>

lemma send_command_not_connected:
  "\<not> is_connected p \<or> \<not> psu p \<Longrightarrow>
   send_command tr command p = (False, p\<lparr>cmd_log := cmd_log p @ [command]\<rparr>)"
  by (simp add: send_command_def Let_def)

lemma apply_block_malformed:
  "\<not> (length (split c) = 3 \<and> \<not> isl (py_float (split c ! 1)) \<and> \<not> isl (py_float (split c ! 2)))
   \<Longrightarrow> apply_block tr c p = (False, p)"
  by (auto simp add: apply_block_def Let_def split: sum.split)

text \<open>
  Claim C10. \<^verbatim>\<open>send_command\<close> returns \<^verbatim>\<open>False\<close> and hands nothing to the VISA layer (the
  interface is unchanged but for the record of the call) when the interface is not
  connected; and, connected or not, for every command that after \<^verbatim>\<open>strip\<close> and \<^verbatim>\<open>upper\<close> is
  neither \<^verbatim>\<open>OUTP ON\<close> nor \<^verbatim>\<open>OUTP OFF\<close> nor a command that starts with \<^verbatim>\<open>APPLY\<close>, has exactly three
  whitespace-separated parts and whose second and third part \<^verbatim>\<open>float\<close> accepts. The result
  is a value in every case: the \<^verbatim>\<open>ValueError\<close> of \<^verbatim>\<open>float\<close> is caught.
\<close>

theorem send_command_returns_False:
  "(\<not> is_connected p \<longrightarrow>
      send_command tr command p = (False, p\<lparr>cmd_log := cmd_log p @ [command]\<rparr>)) \<and>
   (let c = upper (strip command); parts = split c in
      c \<noteq> ''OUTP ON'' \<and> c \<noteq> ''OUTP OFF'' \<and>
      \<not> (startswith c ''APPLY'' \<and> length parts = 3 \<and>
         \<not> isl (py_float (parts ! 1)) \<and> \<not> isl (py_float (parts ! 2)))
      \<longrightarrow> send_command tr command p = (False, p\<lparr>cmd_log := cmd_log p @ [command]\<rparr>))"
proof -
  have "send_command tr command p = (False, p\<lparr>cmd_log := cmd_log p @ [command]\<rparr>)"
    if c: "upper (strip command) \<noteq> ''OUTP ON''" "upper (strip command) \<noteq> ''OUTP OFF''"
      and a: "\<not> (startswith (upper (strip command)) ''APPLY'' \<and>
         length (split (upper (strip command))) = 3 \<and>
         \<not> isl (py_float (split (upper (strip command)) ! 1)) \<and>
         \<not> isl (py_float (split (upper (strip command)) ! 2)))"
  proof (cases "startswith (upper (strip command)) ''APPLY''")
    case True
    with a have "apply_block tr (upper (strip command)) (p\<lparr>cmd_log := cmd_log p @ [command]\<rparr>) =
        (False, p\<lparr>cmd_log := cmd_log p @ [command]\<rparr>)"
      by (intro apply_block_malformed) simp
    with True show ?thesis by (simp add: send_command_def Let_def)
  next
    case False
    with c show ?thesis by (simp add: send_command_def Let_def)
  qed
  then show ?thesis by (simp add: Let_def send_command_not_connected)
qed

theorem send_command_returns_False_witness:
  "is_connected (psu_interface long_run) \<and>
   fst (send_command bench_psu ''APPLY a b'' (psu_interface long_run)) = False \<and>
   fst (send_command bench_psu ''APPLY 5'' (psu_interface long_run)) = False \<and>
   wire (snd (send_command bench_psu ''APPLY a b'' (psu_interface long_run))) =
     wire (psu_interface long_run) \<and>
   \<not> is_connected PowerSupplyInterface_init \<and>
   fst (send_command bench_psu ''OUTP ON'' PowerSupplyInterface_init) = False \<and>
   wire (snd (send_command bench_psu ''OUTP ON'' PowerSupplyInterface_init)) = []"
proof -
  have ab: "let c = upper (strip ''APPLY a b''); parts = split c in
      c \<noteq> ''OUTP ON'' \<and> c \<noteq> ''OUTP OFF'' \<and>
      \<not> (startswith c ''APPLY'' \<and> length parts = 3 \<and>
         \<not> isl (py_float (parts ! 1)) \<and> \<not> isl (py_float (parts ! 2)))"
    by code_simp
  have a5: "let c = upper (strip ''APPLY 5''); parts = split c in
      c \<noteq> ''OUTP ON'' \<and> c \<noteq> ''OUTP OFF'' \<and>
      \<not> (startswith c ''APPLY'' \<and> length parts = 3 \<and>
         \<not> isl (py_float (parts ! 1)) \<and> \<not> isl (py_float (parts ! 2)))"
    by code_simp
  have conn: "is_connected (psu_interface long_run)" by code_simp
  have init: "\<not> is_connected PowerSupplyInterface_init" "wire PowerSupplyInterface_init = []"
    by (simp_all add: PowerSupplyInterface_init_def)
  have r1: "send_command bench_psu ''APPLY a b'' (psu_interface long_run) =
      (False, (psu_interface long_run)\<lparr>cmd_log := cmd_log (psu_interface long_run) @ [''APPLY a b'']\<rparr>)"
    using send_command_returns_False [of "psu_interface long_run" bench_psu "''APPLY a b''"] ab
    by (simp only: Let_def) blast
  have r2: "send_command bench_psu ''APPLY 5'' (psu_interface long_run) =
      (False, (psu_interface long_run)\<lparr>cmd_log := cmd_log (psu_interface long_run) @ [''APPLY 5'']\<rparr>)"
    using send_command_returns_False [of "psu_interface long_run" bench_psu "''APPLY 5''"] a5
    by (simp only: Let_def) blast
  have r3: "send_command bench_psu ''OUTP ON'' PowerSupplyInterface_init =
      (False, PowerSupplyInterface_init\<lparr>cmd_log := cmd_log PowerSupplyInterface_init @ [''OUTP ON'']\<rparr>)"
    using send_command_returns_False [of PowerSupplyInterface_init bench_psu "''OUTP ON''"] init(1)
    by blast
  show ?thesis using conn init by (simp add: r1 r2 r3)
qed

subsection \<open>Abort\<close>

text \<open>
  Claim C5. From any state, so from a plating or a paused one with any elapsed time,
  \<^verbatim>\<open>_execute_abort\<close> leaves the elapsed time 0 and the progress 0, calls \<^verbatim>\<open>send_command\<close>
  exactly once, with \<^verbatim>\<open>OUTP OFF\<close>, whatever the instrument answers, cancels the clock event
  so that a clock tick changes nothing, and leaves the controller not plating, with the
  connection flag as it was and the buttons as after a connect: start and connect enabled,
  pause and abort disabled.
\<close>

theorem execute_abort_resets:
  "let s' = execute_abort tr s in
     time_elapsed_sec s' = 0 \<and> progress_percent s' = 0 \<and> progress_bar_value s' = 0 \<and>
     cmd_log (psu_interface s') = cmd_log (psu_interface s) @ [''OUTP OFF''] \<and>
     \<not> live_update_event s' \<and> \<not> is_plating_active s' \<and>
     is_connected (psu_interface s') = is_connected (psu_interface s) \<and>
     start_btn_text s' = ''START PLATING'' \<and> \<not> start_btn_disabled s' \<and>
     pause_btn_disabled s' \<and> abort_btn_disabled s' \<and> \<not> connect_btn_disabled s' \<and>
     clock_tick tr' s' = s'"
  by (simp add: execute_abort_def Let_def send_command_cmd_log send_command_is_connected
      clock_tick_def)

theorem execute_abort_resets_witness:
  "time_elapsed_sec (paused_run bench_psu) = 3 \<and>
   time_elapsed_sec (execute_abort bench_psu (paused_run bench_psu)) = 0 \<and>
   progress_percent (execute_abort bench_psu (paused_run bench_psu)) = 0 \<and>
   cmd_log (psu_interface (execute_abort bench_psu (paused_run bench_psu))) =
     [''APPLY 2.0 0.25'', ''OUTP ON'', ''OUTP OFF'', ''OUTP OFF''] \<and>
   is_connected (psu_interface (execute_abort bench_psu (paused_run bench_psu)))"
proof -
  have before: "time_elapsed_sec (paused_run bench_psu) = 3"
    "cmd_log (psu_interface (paused_run bench_psu)) = [''APPLY 2.0 0.25'', ''OUTP ON'', ''OUTP OFF'']"
    "is_connected (psu_interface (paused_run bench_psu))"
    by code_simp+
  show ?thesis
    using execute_abort_resets [of bench_psu "paused_run bench_psu" bench_psu] before
    by (simp add: Let_def)
qed

subsection \<open>The monitoring tick\<close>


lemma live_monitor_elapsed:
  "is_plating_active s \<Longrightarrow> time_elapsed_sec (live_monitor tr s) = time_elapsed_sec s + 1"
  by (simp add: live_monitor_def Let_def show_modal_def split: prod.split)

lemma live_monitor_estimated: "estimated_time_sec (live_monitor tr s) = estimated_time_sec s"
  by (simp add: live_monitor_def Let_def show_modal_def split: prod.split)


lemma live_monitor_continues:
  assumes "is_plating_active s"
    and "of_int (time_elapsed_sec s + 1) < estimated_time_sec s"
  shows "is_plating_active (live_monitor tr s) \<and>
     live_update_event (live_monitor tr s) = live_update_event s \<and>
     psu_interface (live_monitor tr s) = snd (read_data tr (psu_interface s))"
  using assms by (simp add: live_monitor_def show_modal_def Let_def case_prod_beta)






text \<open>
  Claim C1, at a failing run. A plating run with the clock event scheduled and more than two
  seconds to go, whose voltage query raises \<^verbatim>\<open>VisaIOError\<close>: \<^verbatim>\<open>read_data\<close> returns the token
  \<^verbatim>\<open>COMMS ERROR - PSU OFFLINE\<close> and the interface disconnects itself, but after the tick the
  controller is still plating and the clock event is still scheduled; the next tick runs
  the handler again and counts another second.
\<close>

theorem comms_failure_leaves_plating_active:
  assumes "is_plating_active s" and "live_update_event s"
    and "is_connected (psu_interface s)" and "psu (psu_interface s)"
    and "output_on (psu_interface s)"
    and "tr (length (wire (psu_interface s))) (Query ''MEASure:VOLTage?'') = None"
    and "of_int (time_elapsed_sec s + 2) < estimated_time_sec s"
  shows "let s' = clock_tick tr s; s'' = clock_tick tr' s' in
     fst (read_data tr (psu_interface s)) = (Finite 0, Finite 0, ''COMMS ERROR - PSU OFFLINE'') \<and>
     \<not> is_connected (psu_interface s') \<and>
     is_plating_active s' \<and> live_update_event s' \<and>
     time_elapsed_sec s' = time_elapsed_sec s + 1 \<and>
     is_plating_active s'' \<and> live_update_event s'' \<and>
     time_elapsed_sec s'' = time_elapsed_sec s + 2 \<and>
     psu_interface s'' = psu_interface s'"
proof -
  note rd = read_data_comms_failure [of "psu_interface s" tr, OF assms(3,4,5,6)]
  have less: "of_int (time_elapsed_sec s + 1) < estimated_time_sec s"
    using assms(7) by simp
  define s' where "s' = live_monitor tr s"
  have first: "\<not> is_connected (psu_interface s')" "is_plating_active s'"
    "live_update_event s'" "time_elapsed_sec s' = time_elapsed_sec s + 1"
    "estimated_time_sec s' = estimated_time_sec s"
    using live_monitor_continues [OF assms(1) less, of tr] assms(1,2) rd
    by (simp_all add: s'_def live_monitor_elapsed live_monitor_estimated)
  have less': "of_int (time_elapsed_sec s' + 1) < estimated_time_sec s'"
    using assms(7) first by simp
  have second: "is_plating_active (live_monitor tr' s')" "live_update_event (live_monitor tr' s')"
    "time_elapsed_sec (live_monitor tr' s') = time_elapsed_sec s + 2"
    "psu_interface (live_monitor tr' s') = psu_interface s'"
    using live_monitor_continues [OF first(2) less', of tr'] first
    by (simp_all add: live_monitor_elapsed read_data_not_connected)
  show ?thesis
    using assms(2) first second rd
    by (simp add: Let_def clock_tick_def s'_def [symmetric])
qed

theorem comms_failure_leaves_plating_active_witness:
  "is_plating_active (plating_run (unplugged_after 5)) \<and>
   is_connected (psu_interface (plating_run (unplugged_after 5))) \<and>
   status_label_text (clock_tick (unplugged_after 5) (plating_run (unplugged_after 5))) =
     ''COMMS ERROR - PSU OFFLINE (0%)'' \<and>
   \<not> is_connected (psu_interface (clock_tick (unplugged_after 5) (plating_run (unplugged_after 5)))) \<and>
   is_plating_active (clock_tick (unplugged_after 5) (plating_run (unplugged_after 5))) \<and>
   live_update_event (clock_tick (unplugged_after 5) (plating_run (unplugged_after 5))) \<and>
   time_elapsed_sec (clock_tick (unplugged_after 5)
     (clock_tick (unplugged_after 5) (plating_run (unplugged_after 5)))) = 2"
proof -
  let ?tr = "unplugged_after 5"
  have before: "is_plating_active (plating_run ?tr)" "live_update_event (plating_run ?tr)"
    "is_connected (psu_interface (plating_run ?tr))" "psu (psu_interface (plating_run ?tr))"
    "output_on (psu_interface (plating_run ?tr))"
    "?tr (length (wire (psu_interface (plating_run ?tr)))) (Query ''MEASure:VOLTage?'') = None"
    by code_simp+
  have vals: "time_elapsed_sec (plating_run ?tr) = 0"
    "estimated_time_sec (plating_run ?tr) = 154376 / 57"
    "status_label_text (clock_tick ?tr (plating_run ?tr)) = ''COMMS ERROR - PSU OFFLINE (0%)''"
    by code_simp+
  have time: "of_int (time_elapsed_sec (plating_run ?tr) + 2) < estimated_time_sec (plating_run ?tr)"
    by (simp add: vals)
  from comms_failure_leaves_plating_active [where s = "plating_run ?tr" and tr = ?tr and tr' = ?tr,
      OF before time] before vals(1,3)
  show ?thesis by (simp add: Let_def)
qed

subsection \<open>Start and resume\<close>

lemma start_process_unfold:
  "start_process tr s =
     (if \<not> is_connected (psu_interface s) \<or> estimated_time_sec s \<le> 0 then show_modal ''Error'' s
      else
        (let apply_command =
               ''APPLY '' @ float_repr (target_voltage_V s) @ '' '' @ float_repr (target_current_A s);
             r1 = send_command tr apply_command (psu_interface s);
             r2 = send_command tr ''OUTP ON'' (snd r1)
         in if \<not> fst r1 then
              s\<lparr>psu_interface := snd r1, status_message := ''ERROR: Failed to set parameters.'',
                status_label_text := ''ERROR: Failed to set parameters.''\<rparr>
            else if fst r2 then
              s\<lparr>psu_interface := snd r2, is_plating_active := True, time_elapsed_sec := 0,
                progress_percent := 0, live_update_event := True,
                status_message := ''PLATING ACTIVE'', start_btn_text := ''START PLATING'',
                start_btn_disabled := True, pause_btn_disabled := False,
                abort_btn_disabled := False, connect_btn_disabled := True,
                status_label_text := ''PLATING ACTIVE''\<rparr>
            else
              s\<lparr>psu_interface := snd r2, status_message := ''ERROR: Failed to turn output ON.'',
                status_label_text := ''ERROR: Failed to turn output ON.''\<rparr>))"
  by (simp add: start_process_def Let_def case_prod_beta bool.case_eq_if)

text \<open>
  Claim C3. With area 0, \<^verbatim>\<open>calculate_metrics\<close> returns the dict of zeros for every thickness
  and level: the division by zero is caught, nothing is raised. Recomputing the targets of
  a state whose area is 0 stores the estimated time 0. In a state whose estimated time is
  not positive, \<^verbatim>\<open>start_process\<close> only opens the error dialog: the interface, and with it the
  record of the commands sent, is unchanged, and the controller does not start plating.
\<close>

theorem zero_area_refuses_start:
  "calculate_metrics thickness_um 0 complexity_level = Inr zero_metrics \<and>
   key_target_current_A zero_metrics = 0 \<and> key_target_voltage_V zero_metrics = 0 \<and>
   key_estimated_time_sec zero_metrics = 0 \<and>
   estimated_time_sec (update_calculations (s\<lparr>target_area_cm2 := 0\<rparr>)) = 0 \<and>
   (estimated_time_sec s \<le> 0 \<longrightarrow>
      start_process tr s = show_modal ''Error'' s \<and>
      psu_interface (start_process tr s) = psu_interface s \<and>
      is_plating_active (start_process tr s) = is_plating_active s)"
  by (simp add: calculate_metrics_zero_area update_calculations_def start_process_def
      show_modal_def zero_metrics_def Let_def)

theorem zero_area_refuses_start_witness:
  "calculate_metrics 10 0 3 = Inr zero_metrics \<and>
   is_connected (psu_interface zero_area_state) \<and>
   estimated_time_sec zero_area_state = 0 \<and>
   psu_interface (start_process bench_psu zero_area_state) = psu_interface zero_area_state \<and>
   modals (start_process bench_psu zero_area_state) = [''Error''] \<and>
   \<not> is_plating_active (start_process bench_psu zero_area_state)"
proof -
  have before: "is_connected (psu_interface zero_area_state)"
    "estimated_time_sec zero_area_state = 0" "modals zero_area_state = []"
    "\<not> is_plating_active zero_area_state"
    by code_simp+
  from zero_area_refuses_start [of 10 3 zero_area_state bench_psu] before
  show ?thesis by (simp add: show_modal_def)
qed

text \<open>
  Claim C2, at a failing run. Whenever \<^verbatim>\<open>start_process\<close> takes a controller that is not
  plating, a paused one included, to plating, it has sent the setpoints and \<^verbatim>\<open>OUTP ON\<close> and
  scheduled the clock event, and the elapsed time and the progress are 0, whatever they
  were before.
\<close>

theorem resume_resets_elapsed:
  assumes "\<not> is_plating_active s" and "is_plating_active (start_process tr s)"
  shows "time_elapsed_sec (start_process tr s) = 0 \<and> progress_percent (start_process tr s) = 0 \<and>
     live_update_event (start_process tr s) \<and>
     cmd_log (psu_interface (start_process tr s)) =
       cmd_log (psu_interface s) @
       [''APPLY '' @ float_repr (target_voltage_V s) @ '' '' @ float_repr (target_current_A s),
        ''OUTP ON'']"
  using assms
  by (simp add: start_process_unfold show_modal_def Let_def send_command_cmd_log
      split: if_split_asm)

theorem resume_resets_elapsed_witness:
  "\<not> is_plating_active (paused_run bench_psu) \<and>
   start_btn_text (paused_run bench_psu) = ''RESUME'' \<and>
   time_elapsed_sec (paused_run bench_psu) = 3 \<and>
   is_plating_active (start_process bench_psu (paused_run bench_psu)) \<and>
   time_elapsed_sec (start_process bench_psu (paused_run bench_psu)) = 0"
proof -
  have before: "\<not> is_plating_active (paused_run bench_psu)"
    "start_btn_text (paused_run bench_psu) = ''RESUME''"
    "time_elapsed_sec (paused_run bench_psu) = 3"
    by code_simp+
  have after: "is_plating_active (start_process bench_psu (paused_run bench_psu))"
    by code_simp
  from resume_resets_elapsed [OF before(1) after] before after
  show ?thesis by simp
qed

subsection \<open>Parameters and targets\<close>

lemma targets_consistent_transfer:
  "targets_consistent s \<Longrightarrow> parameters s' = parameters s \<Longrightarrow>
   computed_targets s' = computed_targets s \<Longrightarrow> targets_consistent s'"
  by (simp add: targets_consistent_def parameters_def)

lemma update_calculations_consistent: "targets_consistent (update_calculations s)"
  using calculate_metrics_returns [of "target_thickness_um s" "target_area_cm2 s" "complexity s"]
  by (auto simp add: targets_consistent_def update_calculations_def computed_targets_def Let_def)

lemma update_calculations_psu: "psu_interface (update_calculations s) = psu_interface s"
  by (simp add: update_calculations_def Let_def split: sum.split)

lemma update_calculations_elapsed:
  "time_elapsed_sec (update_calculations s) = time_elapsed_sec s"
  by (simp add: update_calculations_def Let_def split: sum.split)

lemma update_calculations_targets:
  "parameters s' = parameters s \<Longrightarrow>
   computed_targets (update_calculations s') = computed_targets (update_calculations s)"
  using calculate_metrics_returns [of "target_thickness_um s" "target_area_cm2 s" "complexity s"]
  by (auto simp add: update_calculations_def computed_targets_def parameters_def Let_def)

lemma update_calculations_parameters: "parameters (update_calculations s) = parameters s"
  by (simp add: update_calculations_def parameters_def Let_def split: sum.split)

lemma parameters_update:
  "parameters (s\<lparr>target_thickness_um := v\<rparr>) = (v, snd (parameters s))"
  "parameters (s\<lparr>target_area_cm2 := a\<rparr>) = (fst (parameters s), a, snd (snd (parameters s)))"
  "parameters (s\<lparr>complexity := c\<rparr>) = (fst (parameters s), fst (snd (parameters s)), c)"
  by (simp_all add: parameters_def)

lemma show_modal_fields:
  "parameters (show_modal t s) = parameters s"
  "computed_targets (show_modal t s) = computed_targets s"
  "psu_interface (show_modal t s) = psu_interface s"
  by (simp_all add: show_modal_def parameters_def computed_targets_def)

lemma show_modal_consistent: "targets_consistent s \<Longrightarrow> targets_consistent (show_modal t s)"
  by (erule targets_consistent_transfer) (simp_all add: show_modal_fields)

lemma apply_edit_psu: "psu_interface (apply_edit e s) = psu_interface s"
  by (cases e)
    (simp_all add: on_thickness_input_def on_area_input_def on_complexity_change_def
      update_calculations_psu show_modal_fields split: option.split)

lemma apply_edit_elapsed: "time_elapsed_sec (apply_edit e s) = time_elapsed_sec s"
  by (cases e)
    (simp_all add: on_thickness_input_def on_area_input_def on_complexity_change_def
      update_calculations_elapsed show_modal_def split: option.split)

lemma apply_edit_consistent: "targets_consistent s \<Longrightarrow> targets_consistent (apply_edit e s)"
  by (cases e)
    (simp_all add: on_thickness_input_def on_area_input_def on_complexity_change_def
      update_calculations_consistent show_modal_consistent split: option.split)

lemma recompute_twice:
  assumes "parameters (f (update_calculations (f s))) = parameters (f s)"
  shows "computed_targets (update_calculations (f (update_calculations (f s)))) =
         computed_targets (update_calculations (f s))"
  using assms by (rule update_calculations_targets)

lemma apply_edit_idem:
  "computed_targets (apply_edit e (apply_edit e s)) = computed_targets (apply_edit e s)"
proof (cases e)
  case (ThicknessInput val)
  have "computed_targets (update_calculations (target_thickness_um_update (\<lambda>_. v)
          (update_calculations (target_thickness_um_update (\<lambda>_. v) s)))) =
        computed_targets (update_calculations (target_thickness_um_update (\<lambda>_. v) s))" for v
    by (rule recompute_twice) (simp add: parameters_update update_calculations_parameters)
  with ThicknessInput show ?thesis
    by (simp add: on_thickness_input_def show_modal_fields split: option.split)
next
  case (AreaInput val)
  have "computed_targets (update_calculations (target_area_cm2_update (\<lambda>_. v)
          (update_calculations (target_area_cm2_update (\<lambda>_. v) s)))) =
        computed_targets (update_calculations (target_area_cm2_update (\<lambda>_. v) s))" for v
    by (rule recompute_twice) (simp add: parameters_update update_calculations_parameters)
  with AreaInput show ?thesis
    by (simp add: on_area_input_def show_modal_fields split: option.split)
next
  case (ComplexityChange val)
  have "computed_targets (update_calculations (complexity_update (\<lambda>_. v)
          (update_calculations (complexity_update (\<lambda>_. v) s)))) =
        computed_targets (update_calculations (complexity_update (\<lambda>_. v) s))" for v
    by (rule recompute_twice) (simp add: parameters_update update_calculations_parameters)
  with ComplexityChange show ?thesis
    by (simp add: on_complexity_change_def)
qed

lemma apply_edit_positive:
  assumes "0 < target_thickness_um s \<and> 0 < target_area_cm2 s"
  shows "0 < target_thickness_um (apply_edit e s) \<and> 0 < target_area_cm2 (apply_edit e s)"
proof -
  have keep: "target_thickness_um (update_calculations x) = target_thickness_um x \<and>
      target_area_cm2 (update_calculations x) = target_area_cm2 x" for x
    using update_calculations_parameters [of x] by (simp add: parameters_def)
  show ?thesis using assms
    by (cases e)
      (simp_all add: on_thickness_input_def on_area_input_def on_complexity_change_def
        keep show_modal_def split: option.split)
qed

subsection \<open>What the other handlers leave unchanged\<close>

lemma execute_abort_fields:
  "parameters (execute_abort tr s) = parameters s"
  "computed_targets (execute_abort tr s) = computed_targets s"
  by (simp_all add: execute_abort_def parameters_def computed_targets_def Let_def)

lemma on_connect_toggle_fields:
  "parameters (on_connect_toggle tr s) = parameters s"
  "computed_targets (on_connect_toggle tr s) = computed_targets s"
  by (simp_all add: on_connect_toggle_def execute_abort_fields Let_def show_modal_def
      parameters_def computed_targets_def execute_abort_def case_prod_beta bool.case_eq_if)

lemma start_process_fields:
  "parameters (start_process tr s) = parameters s"
  "computed_targets (start_process tr s) = computed_targets s"
  by (simp_all add: start_process_unfold Let_def show_modal_def parameters_def
      computed_targets_def)

lemma on_pause_plating_fields:
  "parameters (on_pause_plating tr s) = parameters s"
  "computed_targets (on_pause_plating tr s) = computed_targets s"
  by (simp_all add: on_pause_plating_def Let_def parameters_def computed_targets_def)

lemma live_monitor_fields:
  "parameters (live_monitor tr s) = parameters s"
  "computed_targets (live_monitor tr s) = computed_targets s"
  by (simp_all add: live_monitor_def Let_def show_modal_def parameters_def computed_targets_def
      case_prod_beta)

lemma clock_tick_fields:
  "parameters (clock_tick tr s) = parameters s"
  "computed_targets (clock_tick tr s) = computed_targets s"
  by (simp_all add: clock_tick_def live_monitor_fields)

subsection \<open>Invariants of the reachable states\<close>

lemma dispatch_consistent:
  assumes "targets_consistent s"
  shows "targets_consistent (dispatch tr ev s)"
proof (cases ev)
  case (Edit e)
  with assms show ?thesis by (simp add: apply_edit_consistent)
next
  case ConnectToggle
  with targets_consistent_transfer [OF assms on_connect_toggle_fields] show ?thesis by simp
next
  case StartProcess
  with targets_consistent_transfer [OF assms start_process_fields] show ?thesis by simp
next
  case PausePlating
  with targets_consistent_transfer [OF assms on_pause_plating_fields] show ?thesis by simp
next
  case ExecuteAbort
  with targets_consistent_transfer [OF assms execute_abort_fields] show ?thesis by simp
next
  case ClockTick
  with targets_consistent_transfer [OF assms clock_tick_fields] show ?thesis by simp
qed

lemma build_consistent: "targets_consistent build"
  by (simp add: build_def update_calculations_consistent)

lemma reachable_consistent: "reachable tr s \<Longrightarrow> targets_consistent s"
  by (induction rule: reachable.induct) (simp_all add: build_consistent dispatch_consistent)

lemma dispatch_elapsed_nonneg:
  assumes "0 \<le> time_elapsed_sec s"
  shows "0 \<le> time_elapsed_sec (dispatch tr ev s)"
proof (cases ev)
  case (Edit e)
  with assms show ?thesis by (simp add: apply_edit_elapsed)
next
  case ConnectToggle
  with assms show ?thesis
    by (simp add: on_connect_toggle_def execute_abort_def show_modal_def Let_def
        case_prod_beta bool.case_eq_if)
next
  case StartProcess
  with assms show ?thesis
    by (simp add: start_process_unfold show_modal_def Let_def)
next
  case PausePlating
  with assms show ?thesis by (simp add: on_pause_plating_def Let_def)
next
  case ExecuteAbort
  then show ?thesis by (simp add: execute_abort_def Let_def)
next
  case ClockTick
  with assms show ?thesis
    by (simp add: clock_tick_def live_monitor_def show_modal_def Let_def case_prod_beta)
qed

lemma dispatch_positive:
  assumes "0 < target_thickness_um s \<and> 0 < target_area_cm2 s"
  shows "0 < target_thickness_um (dispatch tr ev s) \<and> 0 < target_area_cm2 (dispatch tr ev s)"
proof (cases ev)
  case (Edit e)
  with assms show ?thesis by (simp add: apply_edit_positive)
next
  case ConnectToggle
  with assms on_connect_toggle_fields(1) [of tr s] show ?thesis by (simp add: parameters_def)
next
  case StartProcess
  with assms start_process_fields(1) [of tr s] show ?thesis by (simp add: parameters_def)
next
  case PausePlating
  with assms on_pause_plating_fields(1) [of tr s] show ?thesis by (simp add: parameters_def)
next
  case ExecuteAbort
  with assms execute_abort_fields(1) [of tr s] show ?thesis by (simp add: parameters_def)
next
  case ClockTick
  with assms clock_tick_fields(1) [of tr s] show ?thesis by (simp add: parameters_def)
qed

lemma build_bounds:
  "0 < target_thickness_um build \<and> 0 < target_area_cm2 build \<and> 0 \<le> time_elapsed_sec build"
  by (simp add: build_def update_calculations_elapsed update_calculations_def Let_def
      split: sum.split)

lemma reachable_bounds:
  "reachable tr s \<Longrightarrow>
   0 < target_thickness_um s \<and> 0 < target_area_cm2 s \<and> 0 \<le> time_elapsed_sec s"
proof (induction rule: reachable.induct)
  case reachable_build
  show ?case by (rule build_bounds)
next
  case (reachable_dispatch s ev)
  then show ?case
    using dispatch_positive [of s tr ev] dispatch_elapsed_nonneg [of s tr ev] by simp
qed

text \<open>Every reachable state has a positive estimated time and a non-negative elapsed time:
  the ticks of a run are the ticks the theorems on \<^verbatim>\<open>live_monitor\<close> speak of.\<close>

lemma reachable_estimated_positive:
  assumes "reachable tr s"
  shows "0 < estimated_time_sec s"
proof -
  from assms have "targets_consistent s" by (rule reachable_consistent)
  then have "calculate_metrics (target_thickness_um s) (target_area_cm2 s) (complexity s) =
      Inr (computed_targets s)"
    by (simp add: targets_consistent_def)
  with reachable_bounds [OF assms]
  have "0 < key_estimated_time_sec (computed_targets s)"
    by (auto intro: calculate_metrics_time_positive)
  then show ?thesis by (simp add: computed_targets_def)
qed

text \<open>
  Claim C9. In every state a run can reach, after a parameter edit (thickness, area or
  complexity, accepted or rejected) the stored targets are \<^verbatim>\<open>calculate_metrics\<close> of the
  stored parameters, as soon as the handler returns; the interface, and so the record of
  the commands sent and of the operations handed to the VISA layer, is unchanged; and
  the same edit once more leaves the targets as they are.
\<close>

theorem parameter_edit_recomputes_targets:
  assumes "reachable tr s"
  shows "let s' = apply_edit e s in
     targets_consistent s' \<and> psu_interface s' = psu_interface s \<and>
     computed_targets (apply_edit e s') = computed_targets s'"
  using assms
  by (simp add: Let_def reachable_consistent apply_edit_consistent apply_edit_psu apply_edit_idem)

theorem parameter_edit_recomputes_targets_witness:
  "reachable bench_psu (plating_run bench_psu) \<and>
   targets_consistent (apply_edit (AreaInput (Some 20)) (plating_run bench_psu)) \<and>
   psu_interface (apply_edit (AreaInput (Some 20)) (plating_run bench_psu)) =
     psu_interface (plating_run bench_psu) \<and>
   target_area_cm2 (apply_edit (AreaInput (Some 20)) (plating_run bench_psu)) = 20 \<and>
   target_current_A (apply_edit (AreaInput (Some 20)) (plating_run bench_psu)) = 1 / 10"
proof -
  have "reachable bench_psu
      (dispatch bench_psu StartProcess (dispatch bench_psu ConnectToggle build))"
    by (intro reachable.intros)
  then have r: "reachable bench_psu (plating_run bench_psu)"
    by (simp add: plating_run_def)
  have vals: "target_area_cm2 (apply_edit (AreaInput (Some 20)) (plating_run bench_psu)) = 20"
    "target_current_A (apply_edit (AreaInput (Some 20)) (plating_run bench_psu)) = 1 / 10"
    by code_simp+
  from parameter_edit_recomputes_targets [OF r, of "AreaInput (Some 20)"] r vals
  show ?thesis by (simp add: Let_def)
qed

end
